theory Spec2Isabelle
  imports Main "HOL-Library.Word"
begin

section \<open>Go values: pointers, errors, panics, durations, contexts\<close>

text \<open>
  A Go pointer is an \<open>option\<close>: \<open>None\<close> is \<open>nil\<close>. Dereferencing \<open>nil\<close> panics, and a
  panic is an outcome of its own, distinct from a returned \<open>error\<close> value. The second
  panic is the one govmomi raises, \<open>panic("unexpected type")\<close>, when it is asked to load
  properties into a destination it cannot fill.
\<close>

datatype panic = NilPointerDereference | UnexpectedType

datatype 'a outcome = Returned 'a | Panicked panic

datatype error = Error string

definition errors_New :: "string \<Rightarrow> error" where
  "errors_New msg = Error msg"

definition deref :: "'a option \<Rightarrow> panic + 'a" where
  "deref p = (case p of None \<Rightarrow> Inl NilPointerDereference | Some v \<Rightarrow> Inr v)"

text \<open>\<open>time.Duration\<close> is an \<open>int64\<close> count of nanoseconds.\<close>

type_synonym Duration = "64 word"

definition Second :: Duration where
  "Second = 1000000000"

definition Minute :: Duration where
  "Minute = 60 * Second"

datatype Context = Background | WithTimeout Context Duration

section \<open>The control plane (govmomi) as the code sees it\<close>

record ManagedObjectReference =
  Type :: string
  Value :: string

record ServiceContent =
  RootFolder :: ManagedObjectReference

record vim25_Client =
  ServiceContent :: ServiceContent

text \<open>
  \<open>object.VirtualMachine\<close> and \<open>object.HostSystem\<close>, reduced to what the code reads
  from them: \<open>Reference()\<close> and \<open>Name()\<close>. The machine an operation receives is a
  non-nil object.
\<close>

record object_VirtualMachine =
  vm_Reference :: ManagedObjectReference
  vm_Name :: string

record object_HostSystem =
  host_Reference :: ManagedObjectReference

record HostCertificateManager =
  hcm_Client :: vim25_Client
  hcm_Reference :: ManagedObjectReference
  hcm_Host :: ManagedObjectReference

record HostCertificateInfo =
  Issuer :: string
  Subject :: string
  Status :: string

definition NewHostCertificateManager ::
  "vim25_Client \<Rightarrow> ManagedObjectReference \<Rightarrow> ManagedObjectReference \<Rightarrow> HostCertificateManager" where
  "NewHostCertificateManager c ref host = \<lparr>hcm_Client = c, hcm_Reference = ref, hcm_Host = host\<rparr>"

text \<open>\<open>HostSystem.Reference()\<close> through a \<open>*HostSystem\<close>: a nil receiver panics.\<close>

definition HostSystem_Reference :: "object_HostSystem option \<Rightarrow> panic + ManagedObjectReference" where
  "HostSystem_Reference h = (case deref h of Inl p \<Rightarrow> Inl p | Inr hs \<Rightarrow> Inr (host_Reference hs))"

text \<open>
  Everything outside the repository that an operation consults: the answers of the
  control plane to each call (with the context the call carries), the fresh UUID, and
  bcrypt. Each field has the result type of the Go function it stands for: a
  \<open>(*T, error)\<close> pair is a pair of options.
\<close>

record Environment =
  VirtualMachine_HostSystem ::
    "Context \<Rightarrow> object_VirtualMachine \<Rightarrow> object_HostSystem option \<times> error option"
  Manager_CertificateInfo ::
    "Context \<Rightarrow> HostCertificateManager \<Rightarrow> HostCertificateInfo option \<times> error option"
  Manager_InstallServerCertificate :: "Context \<Rightarrow> HostCertificateManager \<Rightarrow> string \<Rightarrow> error option"
  Manager_GenerateCertificateSigningRequestByDn ::
    "Context \<Rightarrow> HostCertificateManager \<Rightarrow> string \<Rightarrow> string \<times> error option"
  Collector_RetrieveProperties ::
    "Context \<Rightarrow> ManagedObjectReference \<Rightarrow> string list \<Rightarrow> error option"
  uuid_New_String :: string
  bcrypt_GenerateFromPassword :: "string \<Rightarrow> int \<Rightarrow> string \<times> error option"

text \<open>
  \<open>property.Collector.RetrieveOne(ctx, obj, ps, dst)\<close>. The collector first asks the
  control plane for the properties and returns the error of that round trip, if any.
  Only then does it load the answer into \<open>dst\<close>, which must point to a struct or to a
  slice: on any other destination the loader panics. A destination is modelled by the
  shape of its type.
\<close>

datatype destination = PointerToStruct | PointerToSlice | PointerToPointer

definition Collector_RetrieveOne ::
  "Environment \<Rightarrow> Context \<Rightarrow> ManagedObjectReference \<Rightarrow> string list \<Rightarrow> destination
     \<Rightarrow> panic + error option" where
  "Collector_RetrieveOne env ctx obj ps dst =
     (case Collector_RetrieveProperties env ctx obj ps of
        Some e \<Rightarrow> Inr (Some e)
      | None \<Rightarrow>
          (case dst of
             PointerToStruct \<Rightarrow> Inr None
           | PointerToSlice \<Rightarrow> Inr None
           | PointerToPointer \<Rightarrow> Inl UnexpectedType))"

text \<open>
  What an operation does besides returning: the contexts it creates and cancels, the
  control-plane calls it issues (each with its context), and what it logs.
\<close>

datatype Level = DebugLevel | InfoLevel | ErrorLevel

datatype event =
    ContextCreated Context
  | ContextCancelled Context
  | HostSystemCall Context object_VirtualMachine
  | CertificateInfoCall Context HostCertificateManager
  | InstallServerCertificateCall Context HostCertificateManager string
  | GenerateCsrCall Context HostCertificateManager string
  | RetrieveOneCall Context ManagedObjectReference "string list"
  | LogEntry Level string "(string \<times> string) list"

fun error_field :: "error option \<Rightarrow> (string \<times> string) list" where
  "error_field None = []"
| "error_field (Some (Error msg)) = [(''error'', msg)]"

section \<open>ssh_config.go\<close>

record SshCertificateCredentials =
  FilePath :: string
  FileName :: string
  Content :: string

definition NewSshCertificateCredentials :: "string \<Rightarrow> string \<Rightarrow> SshCertificateCredentials" where
  "NewSshCertificateCredentials content fileName =
     \<lparr>FilePath = '''', FileName = fileName, Content = content\<rparr>"

record VirtualMachineSshCertificateManager =
  Client :: vim25_Client

text \<open>
  \<open>GetSshPublicCertificate\<close>: \<open>CertificateHostManager\<close> is declared and never assigned. A
  failed host lookup is logged and execution goes on. The arguments of
  \<open>NewHostCertificateManager\<close> dereference \<open>CertificateHostManager\<close> and call
  \<open>HostSystem.Reference()\<close>; either one panics on nil with the same panic, so the order
  in which Go evaluates them does not show in the result. The deferred \<open>CancelFunc\<close>
  runs on every exit, a panic included.
\<close>

definition GetSshPublicCertificate ::
  "Environment \<Rightarrow> VirtualMachineSshCertificateManager \<Rightarrow> object_VirtualMachine \<Rightarrow> string
     \<Rightarrow> (HostCertificateInfo option \<times> error option) outcome \<times> event list" where
  "GetSshPublicCertificate env this VirtualMachine SshKeyFileName =
     (let CertificateHostManager = (None :: ManagedObjectReference option);
          TimeoutContext = WithTimeout Background (Second * 20);
          (HostSystem, FindError) = VirtualMachine_HostSystem env TimeoutContext VirtualMachine;
          t1 = [ContextCreated TimeoutContext, HostSystemCall TimeoutContext VirtualMachine] @
               (if FindError \<noteq> None
                then [LogEntry ErrorLevel ''Failed to Determine VM Server Host System'' (error_field FindError)]
                else [])
      in case deref CertificateHostManager of
           Inl p \<Rightarrow> (Panicked p, t1 @ [ContextCancelled TimeoutContext])
         | Inr mref \<Rightarrow>
             (case HostSystem_Reference HostSystem of
                Inl p \<Rightarrow> (Panicked p, t1 @ [ContextCancelled TimeoutContext])
              | Inr href \<Rightarrow>
                  (let Manager = NewHostCertificateManager (Client this) mref href;
                       (CertInfo, DownloadedFileError) = Manager_CertificateInfo env TimeoutContext Manager;
                       t2 = t1 @ [CertificateInfoCall TimeoutContext Manager]
                   in if DownloadedFileError \<noteq> None
                      then (Returned (None, DownloadedFileError),
                            t2 @ [LogEntry ErrorLevel ''Failed to Download the Ssh Key File''
                                    (error_field DownloadedFileError),
                                  ContextCancelled TimeoutContext])
                      else (Returned (CertInfo, None), t2 @ [ContextCancelled TimeoutContext]))))"

text \<open>
  \<open>UploadSshKeys\<close>: the host lookup returns early on an error; the manager is built on
  the client's root folder reference (\<open>types.NewReference\<close> never returns nil).
\<close>

definition UploadSshKeys ::
  "Environment \<Rightarrow> VirtualMachineSshCertificateManager \<Rightarrow> object_VirtualMachine
     \<Rightarrow> SshCertificateCredentials \<Rightarrow> error option outcome \<times> event list" where
  "UploadSshKeys env this VirtualMachine Key =
     (let TimeoutContext = WithTimeout Background (Minute * 1);
          (HostSystem, HostSystemError) = VirtualMachine_HostSystem env TimeoutContext VirtualMachine;
          t1 = [ContextCreated TimeoutContext, HostSystemCall TimeoutContext VirtualMachine]
      in if HostSystemError \<noteq> None
         then (Returned (Some (errors_New ''Failed to Get Host System Info'')),
               t1 @ [ContextCancelled TimeoutContext])
         else
           (case HostSystem_Reference HostSystem of
              Inl p \<Rightarrow> (Panicked p, t1 @ [ContextCancelled TimeoutContext])
            | Inr href \<Rightarrow>
                (let SshManager = NewHostCertificateManager (Client this)
                                    (RootFolder (ServiceContent (Client this))) href;
                     InstallationError =
                       Manager_InstallServerCertificate env TimeoutContext SshManager (Content Key);
                     t2 = t1 @ [InstallServerCertificateCall TimeoutContext SshManager (Content Key)]
                 in case InstallationError of
                      None \<Rightarrow>
                        (Returned None,
                         t2 @ [LogEntry DebugLevel
                                 ''SSH Key has been Successfully Uploaded to the VM with Name: %s''
                                 [(''Virtual Machine Name'', vm_Name VirtualMachine)],
                               ContextCancelled TimeoutContext])
                    | Some e \<Rightarrow>
                        (Returned (Some (errors_New ''Failed to Add SSH Support'')),
                         t2 @ [LogEntry ErrorLevel
                                 ''Failed to Upload SSH Key to the Remote VM's Host Machine'' [],
                               ContextCancelled TimeoutContext]))))"

text \<open>
  \<open>GenerateSshKeys\<close>: after the signing request the function returns the wrapped content
  and the request's error together, whatever the error is.
\<close>

definition GenerateSshKeys ::
  "Environment \<Rightarrow> VirtualMachineSshCertificateManager \<Rightarrow> object_VirtualMachine
     \<Rightarrow> (SshCertificateCredentials option \<times> error option) outcome \<times> event list" where
  "GenerateSshKeys env this VirtualMachine =
     (let TimeoutContext = WithTimeout Background (Minute * 1);
          (HostSystem, HostSystemError) = VirtualMachine_HostSystem env TimeoutContext VirtualMachine;
          t1 = [ContextCreated TimeoutContext, HostSystemCall TimeoutContext VirtualMachine]
      in if HostSystemError \<noteq> None
         then (Returned (None, Some (errors_New ''Failed to Get OS Info'')),
               t1 @ [ContextCancelled TimeoutContext])
         else
           (case HostSystem_Reference HostSystem of
              Inl p \<Rightarrow> (Panicked p, t1 @ [ContextCancelled TimeoutContext])
            | Inr href \<Rightarrow>
                (let Manager = NewHostCertificateManager (Client this)
                                 (RootFolder (ServiceContent (Client this))) href;
                     SSLCertificateDistinguishName = ''VirtualMachine-'' @ vm_Name VirtualMachine;
                     (GeneratedCertificate, GenerationError) =
                       Manager_GenerateCertificateSigningRequestByDn env TimeoutContext Manager
                         SSLCertificateDistinguishName
                 in (Returned (Some (NewSshCertificateCredentials GeneratedCertificate ''ssh_key.pub''),
                               GenerationError),
                     t1 @ [GenerateCsrCall TimeoutContext Manager SSLCertificateDistinguishName,
                           ContextCancelled TimeoutContext]))))"

record VirtualMachineSshRootCredentialsManager =
  root_Client :: vim25_Client

text \<open>\<open>types.NamePasswordAuthentication\<close>, with the field of the embedded \<open>GuestAuthentication\<close>.\<close>

record NamePasswordAuthentication =
  InteractiveSession :: bool
  Username :: string
  Password :: string

text \<open>
  \<open>GetSshRootCredentials\<close>: the password field is the bcrypt output (cost 15) for the
  UUID's string; the error of bcrypt is dropped. The destination handed to
  \<open>RetrieveOne\<close> is \<open>&VirtualMachine\<close>, and \<open>VirtualMachine\<close> is itself a
  \<open>*object.VirtualMachine\<close>: a pointer to a pointer.
\<close>

definition GetSshRootCredentials ::
  "Environment \<Rightarrow> VirtualMachineSshRootCredentialsManager \<Rightarrow> object_VirtualMachine
     \<Rightarrow> (NamePasswordAuthentication option \<times> error option) outcome \<times> event list" where
  "GetSshRootCredentials env this VirtualMachine =
     (let PasswordUuid = uuid_New_String env;
          (GeneratedOsPassword, _) = bcrypt_GenerateFromPassword env PasswordUuid 15;
          SshCredentials = \<lparr>InteractiveSession = False, Username = ''root'',
                            Password = GeneratedOsPassword\<rparr>;
          TimeoutContext = WithTimeout Background (Second * 10);
          t = [ContextCreated TimeoutContext,
               RetrieveOneCall TimeoutContext (vm_Reference VirtualMachine) [''name'', ''guest'']]
      in case Collector_RetrieveOne env TimeoutContext (vm_Reference VirtualMachine)
                [''name'', ''guest''] PointerToPointer of
           Inl p \<Rightarrow> (Panicked p, t @ [ContextCancelled TimeoutContext])
         | Inr RetrieveError \<Rightarrow>
             if RetrieveError \<noteq> None
             then (Returned (None, RetrieveError),
                   t @ [LogEntry DebugLevel ''Failed to Get VirtualMachine Instance'' [],
                        ContextCancelled TimeoutContext])
             else (Returned (Some SshCredentials, None), t @ [ContextCancelled TimeoutContext]))"

subsection \<open>Reading a trace\<close>

fun created_contexts :: "event list \<Rightarrow> Context list" where
  "created_contexts [] = []"
| "created_contexts (ContextCreated c # t) = c # created_contexts t"
| "created_contexts (_ # t) = created_contexts t"

fun call_contexts :: "event list \<Rightarrow> Context list" where
  "call_contexts [] = []"
| "call_contexts (HostSystemCall c _ # t) = c # call_contexts t"
| "call_contexts (CertificateInfoCall c _ # t) = c # call_contexts t"
| "call_contexts (InstallServerCertificateCall c _ _ # t) = c # call_contexts t"
| "call_contexts (GenerateCsrCall c _ _ # t) = c # call_contexts t"
| "call_contexts (RetrieveOneCall c _ _ # t) = c # call_contexts t"
| "call_contexts (_ # t) = call_contexts t"

fun requested_dns :: "event list \<Rightarrow> string list" where
  "requested_dns [] = []"
| "requested_dns (GenerateCsrCall _ _ dn # t) = dn # requested_dns t"
| "requested_dns (_ # t) = requested_dns t"

section \<open>models.go\<close>

text \<open>
  The tables behind \<open>models.Database\<close>. \<open>gorm.Model\<close> contributes four columns to
  every row: the primary key \<open>ID\<close>, the timestamps \<open>CreatedAt\<close> and \<open>UpdatedAt\<close>, and the
  soft-delete mark \<open>DeletedAt\<close>. Times are seconds; \<open>NowFunc\<close> is the clock gorm stamps
  rows with. The engine is taken to be reachable: a statement fails only where gorm
  itself refuses to build it.
\<close>

record Model =
  ID :: nat
  CreatedAt :: nat
  UpdatedAt :: nat
  DeletedAt :: "nat option"

record VirtualMachine = Model +
  OwnerId :: string
  VirtualMachineName :: string
  ItemPath :: string
  IPAddress :: string

record SSHPublicKey = Model +
  Key :: string
  Filename :: string
  VirtualMachineID :: int

record Database =
  NowFunc :: nat
  virtual_machines :: "VirtualMachine list"
  ssh_public_keys :: "SSHPublicKey list"

datatype clause = OnConflict_DoNothing

definition ErrMissingWhereClause :: error where
  "ErrMissingWhereClause = Error ''WHERE conditions required''"

text \<open>
  \<open>db.Delete(&row)\<close> on the VirtualMachine table, by primary key. gorm refuses a delete
  whose record has no primary key (\<open>ID = 0\<close>, a record never created) with
  \<open>ErrMissingWhereClause\<close>. Otherwise the scoped form marks the live row as deleted and
  the \<open>Unscoped\<close> form removes the row; a statement that matches no row is not an error.
  An \<open>ON CONFLICT\<close> clause belongs to inserts and changes nothing here.
\<close>

definition gorm_Delete ::
  "clause list \<Rightarrow> bool \<Rightarrow> VirtualMachine \<Rightarrow> Database \<Rightarrow> Database \<times> error option" where
  "gorm_Delete clauses unscoped v db =
     (if ID v = 0 then (db, Some ErrMissingWhereClause)
      else if unscoped
      then (db\<lparr>virtual_machines := filter (\<lambda>r. ID r \<noteq> ID v) (virtual_machines db)\<rparr>, None)
      else (db\<lparr>virtual_machines :=
                  map (\<lambda>r. if ID r = ID v \<and> DeletedAt r = None
                           then r\<lparr>DeletedAt := Some (NowFunc db)\<rparr> else r)
                    (virtual_machines db)\<rparr>, None))"

definition VirtualMachine_Delete :: "VirtualMachine \<Rightarrow> Database \<Rightarrow> Database \<times> error option" where
  "VirtualMachine_Delete this db =
     (let (db1, Deleted_Error) = gorm_Delete [OnConflict_DoNothing] False this db;
          (db2, _) = gorm_Delete [] True this db1
      in (db2, Deleted_Error))"




section \<open>Sample inputs\<close>

definition root_folder :: ManagedObjectReference where
  "root_folder = \<lparr>Type = ''Folder'', Value = ''group-d1''\<rparr>"

definition client0 :: vim25_Client where
  "client0 = \<lparr>ServiceContent = \<lparr>RootFolder = root_folder\<rparr>\<rparr>"

definition cert_manager0 :: VirtualMachineSshCertificateManager where
  "cert_manager0 = \<lparr>Client = client0\<rparr>"

definition root_manager0 :: VirtualMachineSshRootCredentialsManager where
  "root_manager0 = \<lparr>root_Client = client0\<rparr>"

definition web1 :: object_VirtualMachine where
  "web1 = \<lparr>vm_Reference = \<lparr>Type = ''VirtualMachine'', Value = ''vm-42''\<rparr>, vm_Name = ''web-1''\<rparr>"

definition host0 :: object_HostSystem where
  "host0 = \<lparr>host_Reference = \<lparr>Type = ''HostSystem'', Value = ''host-9''\<rparr>\<rparr>"

definition web1_info :: HostCertificateInfo where
  "web1_info = \<lparr>Issuer = ''O=VMware Installer'', Subject = ''VirtualMachine-web-1'', Status = ''good''\<rparr>"

definition uuid0 :: string where
  "uuid0 = ''6ba7b810-9dad-11d1-80b4-00c04fd430c8''"

definition hash0 :: string where
  "hash0 = ''$2a$15$N9qo8uLOickgx2ZMRZoMyeIjZAgcfl7p92ldGxad68LJZdL17lhWy''"

text \<open>A control plane on which every call succeeds.\<close>

definition plane_ok :: Environment where
  "plane_ok =
     \<lparr>VirtualMachine_HostSystem = (\<lambda>ctx vm. (Some host0, None)),
      Manager_CertificateInfo = (\<lambda>ctx m. (Some web1_info, None)),
      Manager_InstallServerCertificate = (\<lambda>ctx m cert. None),
      Manager_GenerateCertificateSigningRequestByDn = (\<lambda>ctx m dn. (''CSR for '' @ dn, None)),
      Collector_RetrieveProperties = (\<lambda>ctx ref props. None),
      uuid_New_String = uuid0,
      bcrypt_GenerateFromPassword = (\<lambda>pw cost. (hash0, None))\<rparr>"

text \<open>The same, but the host system of a machine cannot be determined.\<close>

definition plane_no_host :: Environment where
  "plane_no_host =
     plane_ok\<lparr>VirtualMachine_HostSystem := (\<lambda>ctx vm. (None, Some (Error ''host system not found'')))\<rparr>"

text \<open>The same, but the certificate authority rejects every signing request.\<close>

definition plane_ca_rejects :: Environment where
  "plane_ca_rejects =
     plane_ok\<lparr>Manager_GenerateCertificateSigningRequestByDn :=
                 (\<lambda>ctx m dn. ([], Some (Error ''signing request rejected'')))\<rparr>"

text \<open>The same, but the control plane fails the property retrieval.\<close>

definition plane_no_metadata :: Environment where
  "plane_no_metadata =
     plane_ok\<lparr>Collector_RetrieveProperties :=
                 (\<lambda>ctx ref props. Some (Error ''retrieve failed''))\<rparr>"

definition csr_credentials :: SshCertificateCredentials where
  "csr_credentials = NewSshCertificateCredentials ''CSR for VirtualMachine-web-1'' ''ssh_key.pub''"

definition vm_row :: "nat \<Rightarrow> string \<Rightarrow> VirtualMachine" where
  "vm_row i n = \<lparr>ID = i, CreatedAt = 1600000000, UpdatedAt = 1600000000, DeletedAt = None,
                 OwnerId = ''alice'', VirtualMachineName = n,
                 ItemPath = ''/dc/vm'', IPAddress = ''10.0.0.5''\<rparr>"

definition key_row :: "nat \<Rightarrow> int \<Rightarrow> string \<Rightarrow> SSHPublicKey" where
  "key_row i vmid k = \<lparr>ID = i, CreatedAt = 1600000000, UpdatedAt = 1600000000,
                       DeletedAt = None, Key = k, Filename = ''ssh_key.pub'',
                       VirtualMachineID = vmid\<rparr>"

definition db0 :: Database where
  "db0 = \<lparr>NowFunc = 1700000000,
          virtual_machines = [vm_row 1 ''web-1'', vm_row 2 ''web-2''],
          ssh_public_keys = [key_row 1 1 ''old-key-1'', key_row 2 2 ''old-key-2'',
                             (key_row 3 3 ''old-key-3'')\<lparr>DeletedAt := Some 1650000000\<rparr>]\<rparr>"

section \<open>Properties\<close>

subsection \<open>Reading back the certificate\<close>

text \<open>
  C2. In \<open>GetSshPublicCertificate\<close> the pointer \<open>CertificateHostManager\<close> is declared nil and
  never assigned, and it is dereferenced on every path: a failed host-system lookup is
  only logged and does not return first. So every call, whatever the control plane
  answers, ends in the nil-dereference panic.
\<close>

theorem GetSshPublicCertificate_nil_dereference:
  "fst (GetSshPublicCertificate env this vm name) = Panicked NilPointerDereference"
  by (simp add: GetSshPublicCertificate_def deref_def Let_def split: prod.splits)

text \<open>
  C1. The claim asks that a host system that cannot be located is reported to the caller
  as an error. On a control plane that cannot determine the host, the code logs the
  failure, goes on to build the manager and panics: no error value is returned.
\<close>

theorem GetSshPublicCertificate_host_failure:
  "GetSshPublicCertificate plane_no_host cert_manager0 web1 ''ssh_key.pub'' =
     (Panicked NilPointerDereference,
      [ContextCreated (WithTimeout Background (Second * 20)),
       HostSystemCall (WithTimeout Background (Second * 20)) web1,
       LogEntry ErrorLevel ''Failed to Determine VM Server Host System''
         [(''error'', ''host system not found'')],
       ContextCancelled (WithTimeout Background (Second * 20))])"
  by (simp add: GetSshPublicCertificate_def plane_no_host_def plane_ok_def deref_def Let_def)

text \<open>
  C7. The round trip: an upload that succeeds, on a control plane that would answer the
  read with certificate info whose subject is \<open>VirtualMachine-web-1\<close>. The read never
  reaches the control plane's answer: it panics.
\<close>

theorem upload_then_get_certificate:
  "fst (UploadSshKeys plane_ok cert_manager0 web1 csr_credentials) = Returned None \<and>
   Manager_CertificateInfo plane_ok (WithTimeout Background (Second * 20))
     (NewHostCertificateManager (Client cert_manager0)
        (RootFolder (ServiceContent (Client cert_manager0))) (host_Reference host0)) =
     (Some web1_info, None) \<and>
   Subject web1_info = ''VirtualMachine-'' @ vm_Name web1 \<and>
   fst (GetSshPublicCertificate plane_ok cert_manager0 web1 ''ssh_key.pub'') =
     Panicked NilPointerDereference"
  by (simp add: UploadSshKeys_def GetSshPublicCertificate_def plane_ok_def Let_def
      HostSystem_Reference_def deref_def web1_info_def web1_def)

subsection \<open>Root credentials\<close>

text \<open>
  What \<open>GetSshRootCredentials\<close> can do, on any control plane: if the control plane fails
  the retrieval with \<open>e\<close>, it returns \<open>e\<close> and no credentials; if the control plane
  answers, the loader panics on the pointer-to-pointer destination. The line that
  returns the credentials is never reached.
\<close>

lemma GetSshRootCredentials_outcomes:
  "fst (GetSshRootCredentials env this vm) =
     (case Collector_RetrieveProperties env (WithTimeout Background (Second * 10))
             (vm_Reference vm) [''name'', ''guest''] of
        None \<Rightarrow> Panicked UnexpectedType
      | Some e \<Rightarrow> Returned (None, Some e))"
  by (simp add: GetSshRootCredentials_def Collector_RetrieveOne_def Let_def
      split: prod.splits option.splits)


text \<open>
  C4. The claim asks for the credential pair, with username \<open>root\<close>, exactly when the
  retrieval of the \<open>name\<close> and \<open>guest\<close> properties succeeds. On a control plane that
  answers the retrieval without error, the call panics and returns nothing.
\<close>

theorem GetSshRootCredentials_retrieval_succeeds:
  "Collector_RetrieveProperties plane_ok (WithTimeout Background (Second * 10))
     (vm_Reference web1) [''name'', ''guest''] = None \<and>
   fst (GetSshRootCredentials plane_ok root_manager0 web1) = Panicked UnexpectedType"
  by (simp add: GetSshRootCredentials_def Collector_RetrieveOne_def plane_ok_def Let_def)

subsection \<open>Generating a certificate\<close>

text \<open>
  C5. The claim asks that a rejected signing request yields an error and no credentials.
  On a certificate authority that rejects the request, \<open>GenerateSshKeys\<close> returns the
  error together with a credentials value (empty content, the fixed file name).
\<close>

theorem GenerateSshKeys_rejected_request:
  "fst (GenerateSshKeys plane_ca_rejects cert_manager0 web1) =
     Returned (Some \<lparr>FilePath = [], FileName = ''ssh_key.pub'', Content = []\<rparr>,
               Some (Error ''signing request rejected''))"
  by (simp add: GenerateSshKeys_def plane_ca_rejects_def plane_ok_def Let_def
      HostSystem_Reference_def deref_def NewSshCertificateCredentials_def)

text \<open>
  C6. When the host system of the machine resolves and the certificate authority accepts
  the request, \<open>GenerateSshKeys\<close> has asked for exactly one signing request, for the
  distinguished name \<open>VirtualMachine-\<close> followed by the machine's name, and returns its
  content under the file name \<open>ssh_key.pub\<close>, with no error.
\<close>

theorem GenerateSshKeys_distinguished_name:
  assumes "VirtualMachine_HostSystem env (WithTimeout Background (Minute * 1)) vm = (Some h, None)"
    and "Manager_GenerateCertificateSigningRequestByDn env (WithTimeout Background (Minute * 1))
           (NewHostCertificateManager (Client this) (RootFolder (ServiceContent (Client this)))
              (host_Reference h))
           (''VirtualMachine-'' @ vm_Name vm) = (csr, None)"
  shows "fst (GenerateSshKeys env this vm) =
           Returned (Some \<lparr>FilePath = [], FileName = ''ssh_key.pub'', Content = csr\<rparr>, None) \<and>
         requested_dns (snd (GenerateSshKeys env this vm)) = [''VirtualMachine-'' @ vm_Name vm]"
  using assms
  by (simp add: GenerateSshKeys_def Let_def HostSystem_Reference_def deref_def
      NewSshCertificateCredentials_def)

theorem GenerateSshKeys_distinguished_name_witness:
  "fst (GenerateSshKeys plane_ok cert_manager0 web1) =
     Returned (Some \<lparr>FilePath = [], FileName = ''ssh_key.pub'',
                     Content = ''CSR for VirtualMachine-web-1''\<rparr>, None) \<and>
   requested_dns (snd (GenerateSshKeys plane_ok cert_manager0 web1)) = [''VirtualMachine-web-1'']"
proof -
  have h: "VirtualMachine_HostSystem plane_ok (WithTimeout Background (Minute * 1)) web1 =
             (Some host0, None)"
    by (simp add: plane_ok_def)
  have g: "Manager_GenerateCertificateSigningRequestByDn plane_ok (WithTimeout Background (Minute * 1))
           (NewHostCertificateManager (Client cert_manager0)
              (RootFolder (ServiceContent (Client cert_manager0))) (host_Reference host0))
           (''VirtualMachine-'' @ vm_Name web1) = (''CSR for VirtualMachine-web-1'', None)"
    by (simp add: plane_ok_def web1_def)
  from GenerateSshKeys_distinguished_name [OF h g] show ?thesis
    by (simp add: web1_def)
qed

subsection \<open>Deadlines\<close>

text \<open>
  C9. Every operation creates exactly one context, with its own timeout, and every
  control-plane call it issues carries that context: 10 seconds in
  \<open>GetSshRootCredentials\<close>, 20 seconds in \<open>GetSshPublicCertificate\<close>, 60 seconds in
  \<open>GenerateSshKeys\<close> and \<open>UploadSshKeys\<close>. The products do not overflow \<open>int64\<close>.
\<close>

theorem operation_deadlines:
  "created_contexts (snd (GetSshRootCredentials env rm vm)) = [WithTimeout Background (Second * 10)] \<and>
   set (call_contexts (snd (GetSshRootCredentials env rm vm))) = {WithTimeout Background (Second * 10)} \<and>
   created_contexts (snd (GetSshPublicCertificate env cm vm name)) = [WithTimeout Background (Second * 20)] \<and>
   set (call_contexts (snd (GetSshPublicCertificate env cm vm name))) = {WithTimeout Background (Second * 20)} \<and>
   created_contexts (snd (GenerateSshKeys env cm vm)) = [WithTimeout Background (Minute * 1)] \<and>
   set (call_contexts (snd (GenerateSshKeys env cm vm))) = {WithTimeout Background (Minute * 1)} \<and>
   created_contexts (snd (UploadSshKeys env cm vm k)) = [WithTimeout Background (Minute * 1)] \<and>
   set (call_contexts (snd (UploadSshKeys env cm vm k))) = {WithTimeout Background (Minute * 1)} \<and>
   sint (Second * 10) = 10 * 10 ^ 9 \<and> sint (Second * 20) = 20 * 10 ^ 9 \<and>
   sint (Minute * 1) = 60 * 10 ^ 9"
proof -
  have a: "created_contexts (snd (GetSshRootCredentials env rm vm)) = [WithTimeout Background (Second * 10)] \<and>
   set (call_contexts (snd (GetSshRootCredentials env rm vm))) = {WithTimeout Background (Second * 10)}"
    by (simp add: GetSshRootCredentials_def Collector_RetrieveOne_def Let_def
        split: prod.splits option.splits)
  have b: "created_contexts (snd (GetSshPublicCertificate env cm vm name)) = [WithTimeout Background (Second * 20)] \<and>
   set (call_contexts (snd (GetSshPublicCertificate env cm vm name))) = {WithTimeout Background (Second * 20)}"
    by (simp add: GetSshPublicCertificate_def deref_def Let_def split: prod.splits)
  have c: "created_contexts (snd (GenerateSshKeys env cm vm)) = [WithTimeout Background (Minute * 1)] \<and>
   set (call_contexts (snd (GenerateSshKeys env cm vm))) = {WithTimeout Background (Minute * 1)}"
    by (simp add: GenerateSshKeys_def Let_def split: prod.splits sum.splits)
  have d: "created_contexts (snd (UploadSshKeys env cm vm k)) = [WithTimeout Background (Minute * 1)] \<and>
   set (call_contexts (snd (UploadSshKeys env cm vm k))) = {WithTimeout Background (Minute * 1)}"
    by (simp add: UploadSshKeys_def Let_def split: prod.splits sum.splits option.splits)
  have e: "sint (Second * 10) = 10 * 10 ^ 9 \<and> sint (Second * 20) = 20 * 10 ^ 9 \<and>
   sint (Minute * 1) = 60 * 10 ^ 9"
    by (simp add: Second_def Minute_def)
  from a b c d e show ?thesis by simp
qed

subsection \<open>The repository\<close>

lemma purge_after_mark:
  "filter (\<lambda>r. ID r \<noteq> i)
     (map (\<lambda>r. if ID r = i \<and> DeletedAt r = None then r\<lparr>DeletedAt := Some t\<rparr> else r) rows) =
   filter (\<lambda>r. ID r \<noteq> i) rows"
  by (induction rows) auto

lemma VirtualMachine_Delete_rows:
  "ID v \<noteq> 0 \<Longrightarrow>
   VirtualMachine_Delete v db =
     (db\<lparr>virtual_machines := filter (\<lambda>r. ID r \<noteq> ID v) (virtual_machines db)\<rparr>, None)"
  by (simp add: VirtualMachine_Delete_def gorm_Delete_def Let_def purge_after_mark)

text \<open>
  C8. For a VirtualMachine with an id (gorm assigns ids from 1; 0 is the id of a record
  that was never created), \<open>Delete\<close> returns no error and its purge pass leaves no row
  with that id, soft-deleted or not; a second \<open>Delete\<close>, which finds the row absent,
  returns no error either and leaves the tables as they are.
\<close>

theorem VirtualMachine_Delete_twice:
  assumes "ID v \<noteq> 0"
  shows "snd (VirtualMachine_Delete v db) = None \<and>
         (\<forall>r \<in> set (virtual_machines (fst (VirtualMachine_Delete v db))). ID r \<noteq> ID v) \<and>
         VirtualMachine_Delete v (fst (VirtualMachine_Delete v db)) =
           (fst (VirtualMachine_Delete v db), None)"
  using assms by (simp add: VirtualMachine_Delete_rows)

theorem VirtualMachine_Delete_twice_witness:
  "VirtualMachine_Delete (vm_row 1 ''web-1'') db0 =
     (db0\<lparr>virtual_machines := [vm_row 2 ''web-2'']\<rparr>, None) \<and>
   VirtualMachine_Delete (vm_row 1 ''web-1'') (db0\<lparr>virtual_machines := [vm_row 2 ''web-2'']\<rparr>) =
     (db0\<lparr>virtual_machines := [vm_row 2 ''web-2'']\<rparr>, None)"
proof -
  have nz: "ID (vm_row 1 ''web-1'') \<noteq> 0"
    by (simp add: vm_row_def)
  have first: "VirtualMachine_Delete (vm_row 1 ''web-1'') db0 =
     (db0\<lparr>virtual_machines := [vm_row 2 ''web-2'']\<rparr>, None)"
    by (simp add: VirtualMachine_Delete_def gorm_Delete_def Let_def db0_def vm_row_def)
  from VirtualMachine_Delete_twice [OF nz, of db0] first show ?thesis
    by simp
qed




end
